theory Spec2Isabelle
  imports Main
begin

section \<open>Data model\<close>

text \<open>
  The class \<^verbatim>\<open>Server\<close> of \<^verbatim>\<open>evil_grumbot.py\<close>: one configured Minecraft server.
  The constructor defaults are \<^verbatim>\<open>secret=False\<close> and \<^verbatim>\<open>supports_querying=True\<close>.
\<close>

record Server =
  name :: string
  ip :: string
  channels :: "int list"
  secret :: bool
  supports_querying :: bool

text \<open>
  The status response of the basic status protocol, as far as the program reads it:
  \<^verbatim>\<open>status.players.online\<close>, \<^verbatim>\<open>status.players.max\<close> and
  \<^verbatim>\<open>status.players.sample\<close>. The counts are Python integers. The sample is
  optional: it is \<^verbatim>\<open>None\<close> when the server sends no sample, and otherwise a list of
  players, of which the program reads the \<^verbatim>\<open>name\<close> only.
\<close>

record status =
  players_online :: int
  players_max :: int
  players_sample :: "string list option"

subsection \<open>Text formatting\<close>

text \<open>The decimal rendering of an integer inside an f-string.\<close>

fun digits :: "nat \<Rightarrow> string" where
  "digits n =
     (if n < 10 then [''0123456789'' ! n]
      else digits (n div 10) @ [''0123456789'' ! (n mod 10)])"

definition str_int :: "int \<Rightarrow> string" where
  "str_int i = (if i < 0 then ''-'' @ digits (nat (- i)) else digits (nat i))"

text \<open>\<^verbatim>\<open>sep.join(xs)\<close> on a list of strings.\<close>

fun join :: "string \<Rightarrow> string list \<Rightarrow> string" where
  "join sep [] = []"
| "join sep [x] = x"
| "join sep (x # y # ys) = x @ sep @ join sep (y # ys)"

section \<open>The response composer\<close>

text \<open>
  \<^verbatim>\<open>compose_response(server, status, player_list)\<close>. The Python function appends to
  the list object it is handed, so the model returns the text together with the
  contents of \<^verbatim>\<open>player_list\<close> after the call.
\<close>

definition compose_response :: "Server \<Rightarrow> status \<Rightarrow> string list \<Rightarrow> string \<times> string list" where
  "compose_response server status player_list =
     (let server_name = ''**Spooncraft '' @ name server @ '' Server**'' @ [CHR 0x0A];
          player_count = players_online status;
          max_count = players_max status
      in if player_count = 0 then (server_name @ ''**No online players**'', player_list)
         else
           let player_list' =
                 (if length player_list = 0 \<and> player_count \<ge> 1
                    then player_list @ [''Anonymous Player'']
                  else if int (length player_list) < player_count
                    then player_list @ [''...'']
                  else player_list);
               players_str = join '', '' player_list'
           in (server_name @ ''**Online players ('' @ str_int player_count @ ''/''
                 @ str_int max_count @ ''):**'' @ [CHR 0x0A] @ ''```'' @ players_str @ ''```'',
               player_list'))"

section \<open>Exceptions, the environment and the observable effects\<close>

text \<open>
  The exceptions of the program: \<^verbatim>\<open>socket.timeout\<close>, \<^verbatim>\<open>ValueError\<close> and
  \<^verbatim>\<open>TypeError\<close> (with their messages) and any other subclass of \<^verbatim>\<open>Exception\<close>
  (with the text that \<^verbatim>\<open>str(e)\<close> gives).
\<close>

datatype exn = SocketTimeout | ValueError string | TypeError string | OtherException string

fun exn_str :: "exn \<Rightarrow> string" where
  "exn_str SocketTimeout = ''timed out''"
| "exn_str (ValueError m) = m"
| "exn_str (TypeError m) = m"
| "exn_str (OtherException m) = m"

text \<open>
  What the remote side does is a parameter of the model. \<^verbatim>\<open>JavaServer.lookup(address)\<close>
  either raises or yields a server handle (identified by a string); the outcome of a
  \<^verbatim>\<open>status()\<close> or \<^verbatim>\<open>query()\<close> request on a handle may differ from one request to the
  next, so it is indexed by the number of requests of that kind issued before it.
  \<^verbatim>\<open>JavaServer_query\<close> yields \<^verbatim>\<open>query.players.names\<close> on success.
\<close>

record env =
  JavaServer_lookup :: "string \<Rightarrow> exn + string"
  JavaServer_status :: "string \<Rightarrow> nat \<Rightarrow> exn + status"
  JavaServer_query :: "string \<Rightarrow> nat \<Rightarrow> exn + string list"

text \<open>
  The effects of the program, in the order they happen: log lines, the lists printed
  by \<^verbatim>\<open>print\<close>, the deferral of the interaction (with its \<^verbatim>\<open>ephemeral\<close> flag) and
  the follow-up messages sent to the user.
\<close>

datatype event =
    LogWarning string
  | LogError string
  | Print "string list"
  | Defer bool
  | FollowupSend string

record io_state =
  status_calls :: nat
  query_calls :: nat
  trace :: "event list"

definition emit :: "event \<Rightarrow> io_state \<Rightarrow> io_state" where
  "emit e st = st\<lparr>trace := trace st @ [e]\<rparr>"

section \<open>The registry and the resolver\<close>

definition MAX_RETRIES :: int where
  "MAX_RETRIES = 5"

definition servers :: "Server list" where
  "servers =
     [\<lparr>name = ''Survival'', ip = ''173.233.142.94:25565'',
        channels = [930585547842404372, 930322945040072734],
        secret = False, supports_querying = False\<rparr>,
      \<lparr>name = ''Events'', ip = ''173.233.142.10:25565'',
        channels = [1241016401502928967, 1237006920863453225],
        secret = False, supports_querying = False\<rparr>,
      \<lparr>name = ''Creative'', ip = ''173.233.142.2:25565'',
        channels = [930324293840171028],
        secret = False, supports_querying = False\<rparr>,
      \<lparr>name = ''Testing'', ip = ''173.233.142.3:25565'',
        channels = [646113723550924849],
        secret = True, supports_querying = False\<rparr>,
      \<lparr>name = ''Events Building'', ip = ''140.238.96.87:25565'',
        channels = [],
        secret = True, supports_querying = False\<rparr>]"

text \<open>
  \<^verbatim>\<open>get_server_from_channel\<close> and \<^verbatim>\<open>get_server\<close> scan the module-level list
  \<^verbatim>\<open>servers\<close>, which they read when they are called. The list is the first argument
  of the model; the program runs it on \<^const>\<open>servers\<close>.
\<close>

fun get_server_from_channel :: "Server list \<Rightarrow> int \<Rightarrow> exn + Server" where
  "get_server_from_channel [] channel_id =
     Inl (ValueError (''Channel ID '' @ [CHR 0x27] @ str_int channel_id @ [CHR 0x27] @ '' not found.''))"
| "get_server_from_channel (s # rest) channel_id =
     (if channel_id \<in> set (channels s) then Inr s
      else get_server_from_channel rest channel_id)"

fun get_server :: "Server list \<Rightarrow> string \<Rightarrow> exn + Server" where
  "get_server [] server =
     Inl (ValueError (''Server '' @ [CHR 0x27] @ server @ [CHR 0x27] @ '' not found.''))"
| "get_server (s # rest) server =
     (if name s = server then Inr s else get_server rest server)"

section \<open>The status fetcher\<close>

text \<open>
  The \<^verbatim>\<open>while count < MAX_RETRIES\<close> loop of \<^verbatim>\<open>get_server_info\<close>. Each iteration
  issues one status request; a result is returned at once, \<^verbatim>\<open>socket.timeout\<close> and
  every other \<^verbatim>\<open>Exception\<close> are logged and counted. When the loop ends without a
  result the Python function falls off its end and returns \<^verbatim>\<open>None\<close>.
\<close>

function status_loop :: "env \<Rightarrow> string \<Rightarrow> int \<Rightarrow> io_state \<Rightarrow> status option \<times> io_state" where
  "status_loop e server_lookup count st =
     (if count < MAX_RETRIES then
        (case JavaServer_status e server_lookup (status_calls st) of
           Inr r \<Rightarrow> (Some r, st\<lparr>status_calls := Suc (status_calls st)\<rparr>)
         | Inl SocketTimeout \<Rightarrow>
             status_loop e server_lookup (count + 1)
               (emit (LogWarning (''Status TimeoutError '' @ str_int count))
                  (st\<lparr>status_calls := Suc (status_calls st)\<rparr>))
         | Inl x \<Rightarrow>
             status_loop e server_lookup (count + 1)
               (emit (LogWarning (''Status Unknown exception '' @ exn_str x @ '' '' @ str_int count))
                  (st\<lparr>status_calls := Suc (status_calls st)\<rparr>)))
      else (None, st))"
  by pat_completeness auto
termination
  by (relation "measure (\<lambda>(e, server_lookup, count, st). nat (MAX_RETRIES - count))") auto

text \<open>
  \<^verbatim>\<open>get_server_info\<close>: the lookup comes first, outside the \<^verbatim>\<open>try\<close>; an exception
  it raises leaves the function (\<open>Inl\<close>). \<open>Inr None\<close> is the return value \<^verbatim>\<open>None\<close>.
\<close>

definition get_server_info :: "env \<Rightarrow> Server \<Rightarrow> io_state \<Rightarrow> (exn + status option) \<times> io_state" where
  "get_server_info e server st =
     (case JavaServer_lookup e (ip server) of
        Inl x \<Rightarrow> (Inl x, st)
      | Inr server_lookup \<Rightarrow>
          (case status_loop e server_lookup 0 st of (r, st') \<Rightarrow> (Inr r, st')))"

text \<open>\<^verbatim>\<open>get_players_query\<close>: one lookup, one query request, no handler.\<close>

definition get_players_query :: "env \<Rightarrow> Server \<Rightarrow> io_state \<Rightarrow> (exn + string list) \<times> io_state" where
  "get_players_query e server st =
     (case JavaServer_lookup e (ip server) of
        Inl x \<Rightarrow> (Inl x, st)
      | Inr server_lookup \<Rightarrow>
          (JavaServer_query e server_lookup (query_calls st),
           st\<lparr>query_calls := Suc (query_calls st)\<rparr>))"

section \<open>The command handler\<close>

text \<open>
  \<^verbatim>\<open>send_data(interaction, server, hidden)\<close>. The interaction contributes its
  \<^verbatim>\<open>channel_id\<close>; deferring and sending are recorded in the trace. The result is
  \<open>Inr ()\<close> when the coroutine returns and \<open>Inl x\<close> when the exception \<open>x\<close> leaves it.
  The comprehension over \<^verbatim>\<open>status.players.sample\<close> stands outside every \<^verbatim>\<open>try\<close>:
  on a status without a sample it iterates over \<^verbatim>\<open>None\<close> and raises \<^verbatim>\<open>TypeError\<close>,
  before the second \<^verbatim>\<open>print\<close>.
\<close>

definition send_data ::
    "Server list \<Rightarrow> env \<Rightarrow> int \<Rightarrow> string \<Rightarrow> bool \<Rightarrow> io_state \<Rightarrow> (exn + unit) \<times> io_state" where
  "send_data reg e channel_id server hidden st0 =
     (let st1 = emit (Defer hidden) st0;
          resolved =
            (if server = ''Default'' then
               (case get_server_from_channel reg channel_id of
                  Inl (ValueError m) \<Rightarrow> Inl None
                | Inl x \<Rightarrow> Inl (Some x)
                | Inr s \<Rightarrow> Inr s)
             else
               (case get_server reg server of
                  Inl x \<Rightarrow> Inl (Some x)
                | Inr s \<Rightarrow> Inr s))
      in case resolved of
           Inl None \<Rightarrow>
             (Inr (), emit (FollowupSend
                ''**You must either select a server or be in a recognised channel**'') st1)
         | Inl (Some x) \<Rightarrow> (Inl x, st1)
         | Inr selected_server \<Rightarrow>
             (case get_server_info e selected_server st1 of
                (Inl x, st2) \<Rightarrow> (Inl x, st2)
              | (Inr None, st2) \<Rightarrow>
                  (Inr (), emit (FollowupSend ''**An unexpected error occurred**'') st2)
              | (Inr (Some status), st2) \<Rightarrow>
                  if players_online status = 0 then
                    (Inr (), emit (FollowupSend (fst (compose_response selected_server status []))) st2)
                  else
                    (case (if supports_querying selected_server then
                             (case get_players_query e selected_server st2 of
                                (Inr names, st3) \<Rightarrow> Inr (names, emit (Print names) st3)
                              | (Inl SocketTimeout, st3) \<Rightarrow>
                                  Inr ([], emit (LogError (''Using backup for '' @ [CHR 0x27]
                                     @ name selected_server @ [CHR 0x27]
                                     @ '', despite being supported.'')) st3)
                              | (Inl x, st3) \<Rightarrow> Inl (x, st3))
                           else Inr ([], st2)) of
                       Inl (x, st3) \<Rightarrow> (Inl x, st3)
                     | Inr (queried, st3) \<Rightarrow>
                         (case (if length queried = 0 then
                                  (case players_sample status of
                                     None \<Rightarrow>
                                       Inl (TypeError ([CHR 0x27] @ ''NoneType'' @ [CHR 0x27]
                                              @ '' object is not iterable''))
                                   | Some sample \<Rightarrow>
                                       Inr (filter (\<lambda>i. i \<noteq> ''Anonymous Player'') sample))
                                else Inr queried) of
                            Inl x \<Rightarrow> (Inl x, st3)
                          | Inr player_list \<Rightarrow>
                              (let st4 = emit (Print player_list) st3
                               in (Inr (), emit (FollowupSend
                                     (fst (compose_response selected_server status player_list)))
                                     st4))))))"

declare digits.simps [simp del]
declare status_loop.simps [simp del]

section \<open>Properties of the response composer\<close>

lemma join_snoc: "xs \<noteq> [] \<Longrightarrow> join sep (xs @ [y]) = join sep xs @ sep @ y"
  by (induction sep xs rule: join.induct) auto

text \<open>
  Claim C4. When the online count of the status is 0, \<^verbatim>\<open>compose_response\<close> returns
  the header followed by the fixed line \<^verbatim>\<open>**No online players**\<close>, whatever the names
  list holds: no name of the list appears in the text, and the list is left as it was.
\<close>
theorem compose_response_no_players:
  "players_online status = 0 \<Longrightarrow>
   compose_response server status player_list =
     (''**Spooncraft '' @ name server @ '' Server**'' @ [CHR 0x0A] @ ''**No online players**'',
      player_list)"
  by (simp add: compose_response_def)

theorem compose_response_no_players_witness:
  "players_online \<lparr>players_online = 0, players_max = 20, players_sample = Some [''Alice'']\<rparr> = 0 \<and>
   compose_response (hd servers)
       \<lparr>players_online = 0, players_max = 20, players_sample = Some [''Alice'']\<rparr> [''Alice'', ''Bob''] =
     (''**Spooncraft Survival Server**'' @ [CHR 0x0A] @ ''**No online players**'',
      [''Alice'', ''Bob''])"
  using compose_response_no_players
    [where status = "\<lparr>players_online = 0, players_max = 20, players_sample = Some [''Alice'']\<rparr>"
       and server = "hd servers" and player_list = "[''Alice'', ''Bob'']"]
  by (simp add: servers_def)

text \<open>
  Claim C5. When the names list is empty and the online count is at least 1, the
  player list that is composed has exactly one entry, \<^verbatim>\<open>Anonymous Player\<close>, and no
  ellipsis entry: the text shows the counts and that single name.
\<close>
theorem compose_response_anonymous:
  "1 \<le> players_online status \<Longrightarrow>
   compose_response server status [] =
     (''**Spooncraft '' @ name server @ '' Server**'' @ [CHR 0x0A]
        @ ''**Online players ('' @ str_int (players_online status) @ ''/''
        @ str_int (players_max status) @ ''):**'' @ [CHR 0x0A]
        @ ''```'' @ ''Anonymous Player'' @ ''```'',
      [''Anonymous Player''])"
  by (simp add: compose_response_def)

theorem compose_response_anonymous_witness:
  "1 \<le> players_online \<lparr>players_online = 2, players_max = 20, players_sample = Some []\<rparr> \<and>
   compose_response (hd servers)
       \<lparr>players_online = 2, players_max = 20, players_sample = Some []\<rparr> [] =
     (''**Spooncraft Survival Server**'' @ [CHR 0x0A] @ ''**Online players (2/20):**''
        @ [CHR 0x0A] @ ''```Anonymous Player```'',
      [''Anonymous Player''])"
  using compose_response_anonymous
    [where status = "\<lparr>players_online = 2, players_max = 20, players_sample = Some []\<rparr>"
       and server = "hd servers"]
  by (simp add: servers_def str_int_def digits.simps)

text \<open>
  Claim C6. When the names list is non-empty and strictly shorter than the online
  count, the composed player list is the given names joined with \<^verbatim>\<open>", "\<close> and a
  literal \<^verbatim>\<open>...\<close> entry at the end. When the list is at least as long as the online
  count, nothing is appended: the list stays as it was and, unless the count is 0
  (where no list is shown at all), the text shows exactly the given names.
\<close>
theorem compose_response_ellipsis:
  "(player_list \<noteq> [] \<and> int (length player_list) < players_online status \<longrightarrow>
      compose_response server status player_list =
        (''**Spooncraft '' @ name server @ '' Server**'' @ [CHR 0x0A]
           @ ''**Online players ('' @ str_int (players_online status) @ ''/''
           @ str_int (players_max status) @ ''):**'' @ [CHR 0x0A]
           @ ''```'' @ join '', '' player_list @ '', '' @ ''...'' @ ''```'',
         player_list @ [''...''])) \<and>
   (players_online status \<le> int (length player_list) \<longrightarrow>
      snd (compose_response server status player_list) = player_list \<and>
      (players_online status \<noteq> 0 \<longrightarrow>
         fst (compose_response server status player_list) =
           ''**Spooncraft '' @ name server @ '' Server**'' @ [CHR 0x0A]
             @ ''**Online players ('' @ str_int (players_online status) @ ''/''
             @ str_int (players_max status) @ ''):**'' @ [CHR 0x0A]
             @ ''```'' @ join '', '' player_list @ ''```''))"
  by (auto simp: compose_response_def Let_def join_snoc)

theorem compose_response_ellipsis_witness:
  "[''Alice'', ''Bob''] \<noteq> [] \<and>
   int (length [''Alice'', ''Bob'']) <
     players_online \<lparr>players_online = 3, players_max = 20, players_sample = Some []\<rparr> \<and>
   compose_response (hd servers)
       \<lparr>players_online = 3, players_max = 20, players_sample = Some []\<rparr> [''Alice'', ''Bob''] =
     (''**Spooncraft Survival Server**'' @ [CHR 0x0A] @ ''**Online players (3/20):**''
        @ [CHR 0x0A] @ ''```Alice, Bob, ...```'',
      [''Alice'', ''Bob'', ''...'']) \<and>
   players_online \<lparr>players_online = 3, players_max = 20, players_sample = Some []\<rparr>
     \<le> int (length [''Alice'', ''Bob'', ''Carol'']) \<and>
   compose_response (hd servers)
       \<lparr>players_online = 3, players_max = 20, players_sample = Some []\<rparr>
       [''Alice'', ''Bob'', ''Carol''] =
     (''**Spooncraft Survival Server**'' @ [CHR 0x0A] @ ''**Online players (3/20):**''
        @ [CHR 0x0A] @ ''```Alice, Bob, Carol```'',
      [''Alice'', ''Bob'', ''Carol''])"
  using compose_response_ellipsis
    [where status = "\<lparr>players_online = 3, players_max = 20, players_sample = Some []\<rparr>"
       and server = "hd servers" and player_list = "[''Alice'', ''Bob'']"]
    compose_response_ellipsis
    [where status = "\<lparr>players_online = 3, players_max = 20, players_sample = Some []\<rparr>"
       and server = "hd servers" and player_list = "[''Alice'', ''Bob'', ''Carol'']"]
  by (simp add: servers_def str_int_def digits.simps prod_eq_iff)

text \<open>
  Claim C9. \<^verbatim>\<open>compose_response\<close> changes the list it is handed: for an online count
  of at least 1, an empty list holds \<^verbatim>\<open>Anonymous Player\<close> after the call, and a
  non-empty list shorter than the online count has gained the entry \<^verbatim>\<open>...\<close>.
\<close>
theorem compose_response_mutates:
  "1 \<le> players_online status \<Longrightarrow>
   (player_list = [] \<longrightarrow>
      snd (compose_response server status player_list) = [''Anonymous Player'']) \<and>
   (player_list \<noteq> [] \<and> int (length player_list) < players_online status \<longrightarrow>
      snd (compose_response server status player_list) = player_list @ [''...''])"
  by (auto simp: compose_response_def Let_def)

theorem compose_response_mutates_witness:
  "1 \<le> players_online \<lparr>players_online = 3, players_max = 20, players_sample = Some []\<rparr> \<and>
   snd (compose_response (hd servers)
       \<lparr>players_online = 3, players_max = 20, players_sample = Some []\<rparr> []) = [''Anonymous Player''] \<and>
   [''Alice''] \<noteq> [] \<and>
   int (length [''Alice'']) < players_online \<lparr>players_online = 3, players_max = 20, players_sample = Some []\<rparr> \<and>
   snd (compose_response (hd servers)
       \<lparr>players_online = 3, players_max = 20, players_sample = Some []\<rparr> [''Alice'']) = [''Alice'', ''...'']"
  using compose_response_mutates
    [where status = "\<lparr>players_online = 3, players_max = 20, players_sample = Some []\<rparr>"
       and server = "hd servers" and player_list = "[]"]
    compose_response_mutates
    [where status = "\<lparr>players_online = 3, players_max = 20, players_sample = Some []\<rparr>"
       and server = "hd servers" and player_list = "[''Alice'']"]
  by simp




section \<open>Properties of the resolver\<close>

lemma get_server_from_channel_Inr:
  "get_server_from_channel reg channel_id = Inr s \<longleftrightarrow>
     (\<exists>pre post. reg = pre @ s # post \<and> channel_id \<in> set (channels s) \<and>
        (\<forall>p \<in> set pre. channel_id \<notin> set (channels p)))"
proof (induction reg)
  case Nil
  then show ?case by simp
next
  case (Cons a reg)
  show ?case
  proof (cases "channel_id \<in> set (channels a)")
    case True
    have "(\<exists>pre post. a # reg = pre @ s # post \<and> channel_id \<in> set (channels s) \<and>
        (\<forall>p \<in> set pre. channel_id \<notin> set (channels p))) \<longleftrightarrow> a = s"
    proof
      assume "\<exists>pre post. a # reg = pre @ s # post \<and> channel_id \<in> set (channels s) \<and>
        (\<forall>p \<in> set pre. channel_id \<notin> set (channels p))"
      then obtain pre post where h: "a # reg = pre @ s # post" "\<forall>p \<in> set pre. channel_id \<notin> set (channels p)"
        by blast
      show "a = s"
      proof (cases pre)
        case Nil
        with h show ?thesis by simp
      next
        case (Cons b pre')
        with h True show ?thesis by auto
      qed
    next
      assume "a = s"
      with True have "a # reg = [] @ s # reg \<and> channel_id \<in> set (channels s) \<and>
        (\<forall>p \<in> set []. channel_id \<notin> set (channels p))" by simp
      then show "\<exists>pre post. a # reg = pre @ s # post \<and> channel_id \<in> set (channels s) \<and>
        (\<forall>p \<in> set pre. channel_id \<notin> set (channels p))" by blast
    qed
    with True show ?thesis by auto
  next
    case False
    have "(\<exists>pre post. a # reg = pre @ s # post \<and> channel_id \<in> set (channels s) \<and>
        (\<forall>p \<in> set pre. channel_id \<notin> set (channels p))) \<longleftrightarrow>
          (\<exists>pre post. reg = pre @ s # post \<and> channel_id \<in> set (channels s) \<and>
        (\<forall>p \<in> set pre. channel_id \<notin> set (channels p)))" (is "?L \<longleftrightarrow> ?R")
    proof
      assume ?L
      then obtain pre post where h: "a # reg = pre @ s # post" "channel_id \<in> set (channels s)"
         "\<forall>p \<in> set pre. channel_id \<notin> set (channels p)"
        by blast
      show ?R
      proof (cases pre)
        case Nil
        with h False show ?thesis by simp
      next
        case (Cons b pre')
        with h have "reg = pre' @ s # post \<and> channel_id \<in> set (channels s) \<and>
        (\<forall>p \<in> set pre'. channel_id \<notin> set (channels p))" by simp
        then show ?thesis by blast
      qed
    next
      assume ?R
      then obtain pre post where h: "reg = pre @ s # post" "channel_id \<in> set (channels s)"
         "\<forall>p \<in> set pre. channel_id \<notin> set (channels p)"
        by blast
      with False have "a # reg = (a # pre) @ s # post \<and> channel_id \<in> set (channels s) \<and>
        (\<forall>p \<in> set (a # pre). channel_id \<notin> set (channels p))" by simp
      then show ?L by blast
    qed
    with False Cons.IH show ?thesis by simp
  qed
qed

lemma get_server_from_channel_Inl:
  "(\<exists>x. get_server_from_channel reg channel_id = Inl x) \<longleftrightarrow>
     (\<forall>s \<in> set reg. channel_id \<notin> set (channels s))"
  by (induction reg) auto

lemma get_server_from_channel_error:
  "get_server_from_channel reg channel_id = Inl x \<Longrightarrow>
     x = ValueError (''Channel ID '' @ [CHR 0x27] @ str_int channel_id @ [CHR 0x27] @ '' not found.'')"
  by (induction reg) (auto split: if_splits)


text \<open>
  Claim C7. For every registry and channel id, \<^verbatim>\<open>get_server_from_channel\<close> returns
  the first entry, in registry order, whose channel list contains the id: the result
  is \<open>s\<close> exactly when the registry splits into entries that do not contain the id,
  then \<open>s\<close>, which does. It raises \<^verbatim>\<open>ValueError\<close> (with the message naming the id)
  exactly when no entry's channel list contains the id.
\<close>
theorem get_server_from_channel_first_match:
  "(get_server_from_channel reg channel_id = Inr s \<longleftrightarrow>
      (\<exists>pre post. reg = pre @ s # post \<and> channel_id \<in> set (channels s) \<and>
         (\<forall>p \<in> set pre. channel_id \<notin> set (channels p)))) \<and>
   (get_server_from_channel reg channel_id =
        Inl (ValueError (''Channel ID '' @ [CHR 0x27] @ str_int channel_id @ [CHR 0x27]
               @ '' not found.'')) \<longleftrightarrow>
      (\<forall>s \<in> set reg. channel_id \<notin> set (channels s)))"
proof
  show "get_server_from_channel reg channel_id = Inr s \<longleftrightarrow>
      (\<exists>pre post. reg = pre @ s # post \<and> channel_id \<in> set (channels s) \<and>
         (\<forall>p \<in> set pre. channel_id \<notin> set (channels p)))"
    by (rule get_server_from_channel_Inr)
next
  have "(\<exists>x. get_server_from_channel reg channel_id = Inl x) \<longleftrightarrow>
      get_server_from_channel reg channel_id =
        Inl (ValueError (''Channel ID '' @ [CHR 0x27] @ str_int channel_id @ [CHR 0x27]
               @ '' not found.''))"
    using get_server_from_channel_error [of reg channel_id] by blast
  then show "get_server_from_channel reg channel_id =
        Inl (ValueError (''Channel ID '' @ [CHR 0x27] @ str_int channel_id @ [CHR 0x27]
               @ '' not found.'')) \<longleftrightarrow>
      (\<forall>s \<in> set reg. channel_id \<notin> set (channels s))"
    using get_server_from_channel_Inl [of reg channel_id] by simp
qed

theorem get_server_from_channel_first_match_witness:
  "get_server_from_channel servers 1241016401502928967 = Inr (servers ! 1) \<and>
   (\<exists>pre post. servers = pre @ (servers ! 1) # post \<and>
      1241016401502928967 \<in> set (channels (servers ! 1)) \<and>
      (\<forall>p \<in> set pre. 1241016401502928967 \<notin> set (channels p))) \<and>
   42 \<notin> set (concat (map channels servers)) \<and>
   get_server_from_channel servers 42 = Inl (ValueError (''Channel ID '' @ [CHR 0x27] @ ''42'' @ [CHR 0x27] @ '' not found.''))"
proof -
  have a: "get_server_from_channel servers 1241016401502928967 = Inr (servers ! 1)"
    by (simp add: servers_def)
  have b: "\<forall>s \<in> set servers. 42 \<notin> set (channels s)"
    by (simp add: servers_def)
  have c: "str_int 42 = ''42''"
    by (simp add: str_int_def digits.simps)
  have d: "42 \<notin> set (concat (map channels servers))"
    by (simp add: servers_def)
  from a b c d get_server_from_channel_first_match [of servers 1241016401502928967 "servers ! 1"]
    get_server_from_channel_first_match [of servers 42]
  show ?thesis by simp
qed

section \<open>Properties of the status fetcher\<close>

lemma status_loop_success:
  "k < nat (MAX_RETRIES - count) \<Longrightarrow>
   \<forall>j<k. \<exists>x. JavaServer_status e h (status_calls st + j) = Inl x \<Longrightarrow>
   JavaServer_status e h (status_calls st + k) = Inr r \<Longrightarrow>
   fst (status_loop e h count st) = Some r \<and>
   status_calls (snd (status_loop e h count st)) = status_calls st + k + 1"
proof (induction k arbitrary: count st)
  case 0
  then have "count < MAX_RETRIES" by simp
  with 0 show ?case by (simp add: status_loop.simps [of e h count st])
next
  case (Suc k)
  from Suc.prems(1) have lt: "count < MAX_RETRIES" by simp
  from Suc.prems(2) obtain x where x: "JavaServer_status e h (status_calls st) = Inl x"
    by force
  define st' where "st' = emit (LogWarning (if x = SocketTimeout
        then ''Status TimeoutError '' @ str_int count
        else ''Status Unknown exception '' @ exn_str x @ '' '' @ str_int count))
      (st\<lparr>status_calls := Suc (status_calls st)\<rparr>)"
  have calls: "status_calls st' = Suc (status_calls st)"
    by (simp add: st'_def emit_def)
  have step: "status_loop e h count st = status_loop e h (count + 1) st'"
    using lt x by (cases x) (simp_all add: status_loop.simps [of e h count st] st'_def)
  have a: "k < nat (MAX_RETRIES - (count + 1))" using Suc.prems(1) by simp
  have b: "\<forall>j<k. \<exists>x. JavaServer_status e h (status_calls st' + j) = Inl x"
    using Suc.prems(2) calls by (metis Suc_less_eq add_Suc_shift)
  have c: "JavaServer_status e h (status_calls st' + k) = Inr r"
    using Suc.prems(3) calls by simp
  from Suc.IH [OF a b c] step calls show ?case by simp
qed

lemma status_loop_exhausted:
  "n = nat (MAX_RETRIES - count) \<Longrightarrow>
   \<forall>j<n. \<exists>x. JavaServer_status e h (status_calls st + j) = Inl x \<Longrightarrow>
   fst (status_loop e h count st) = None \<and>
   status_calls (snd (status_loop e h count st)) = status_calls st + n"
proof (induction n arbitrary: count st)
  case 0
  then have "\<not> count < MAX_RETRIES" by simp
  then show ?case by (simp add: status_loop.simps [of e h count st])
next
  case (Suc n)
  from Suc.prems(1) have lt: "count < MAX_RETRIES" by simp
  from Suc.prems(2) obtain x where x: "JavaServer_status e h (status_calls st) = Inl x"
    by force
  define st' where "st' = emit (LogWarning (if x = SocketTimeout
        then ''Status TimeoutError '' @ str_int count
        else ''Status Unknown exception '' @ exn_str x @ '' '' @ str_int count))
      (st\<lparr>status_calls := Suc (status_calls st)\<rparr>)"
  have calls: "status_calls st' = Suc (status_calls st)"
    by (simp add: st'_def emit_def)
  have step: "status_loop e h count st = status_loop e h (count + 1) st'"
    using lt x by (cases x) (simp_all add: status_loop.simps [of e h count st] st'_def)
  have a: "n = nat (MAX_RETRIES - (count + 1))" using Suc.prems(1) by simp
  have b: "\<forall>j<n. \<exists>x. JavaServer_status e h (status_calls st' + j) = Inl x"
    using Suc.prems(2) calls by (metis Suc_less_eq add_Suc_shift)
  from Suc.IH [OF a b] step calls show ?case by simp
qed

text \<open>
  Claim C1. Once the address lookup has given a handle: if each of the next five status
  requests fails (with \<^verbatim>\<open>socket.timeout\<close> or any other exception),
  \<^verbatim>\<open>get_server_info\<close> issues exactly five requests and returns \<^verbatim>\<open>None\<close>; if the
  requests fail \<open>k < 5\<close> times and the next one succeeds, that status is returned and
  exactly \<open>k + 1\<close> requests have been issued, none after the successful one.
\<close>
theorem get_server_info_retry:
  "JavaServer_lookup e (ip server) = Inr h \<Longrightarrow>
   ((\<forall>j<5. \<exists>x. JavaServer_status e h (status_calls st + j) = Inl x) \<longrightarrow>
      fst (get_server_info e server st) = Inr None \<and>
      status_calls (snd (get_server_info e server st)) = status_calls st + 5) \<and>
   (k < 5 \<and> (\<forall>j<k. \<exists>x. JavaServer_status e h (status_calls st + j) = Inl x) \<and>
    JavaServer_status e h (status_calls st + k) = Inr r \<longrightarrow>
      fst (get_server_info e server st) = Inr (Some r) \<and>
      status_calls (snd (get_server_info e server st)) = status_calls st + k + 1)"
proof (intro conjI impI)
  assume l: "JavaServer_lookup e (ip server) = Inr h"
  have n: "5 = nat (MAX_RETRIES - 0)" by (simp add: MAX_RETRIES_def)
  {
    assume "\<forall>j<5. \<exists>x. JavaServer_status e h (status_calls st + j) = Inl x"
    from status_loop_exhausted [OF n this]
    show "fst (get_server_info e server st) = Inr None"
      and "status_calls (snd (get_server_info e server st)) = status_calls st + 5"
      using l by (simp_all add: get_server_info_def case_prod_beta)
  }
  {
    assume "k < 5 \<and> (\<forall>j<k. \<exists>x. JavaServer_status e h (status_calls st + j) = Inl x) \<and>
      JavaServer_status e h (status_calls st + k) = Inr r"
    then have "k < nat (MAX_RETRIES - 0)"
      and "\<forall>j<k. \<exists>x. JavaServer_status e h (status_calls st + j) = Inl x"
      and "JavaServer_status e h (status_calls st + k) = Inr r"
      by (simp_all add: MAX_RETRIES_def)
    from status_loop_success [OF this]
    show "fst (get_server_info e server st) = Inr (Some r)"
      and "status_calls (snd (get_server_info e server st)) = status_calls st + k + 1"
      using l by (simp_all add: get_server_info_def case_prod_beta)
  }
qed

theorem get_server_info_retry_witness:
  "JavaServer_lookup
      \<lparr>JavaServer_lookup = Inr, JavaServer_status = (\<lambda>h n. Inl SocketTimeout),
       JavaServer_query = (\<lambda>h n. Inl SocketTimeout)\<rparr> (ip (hd servers))
     = Inr ''173.233.142.94:25565'' \<and>
   map (JavaServer_status
      \<lparr>JavaServer_lookup = Inr, JavaServer_status = (\<lambda>h n. Inl SocketTimeout),
       JavaServer_query = (\<lambda>h n. Inl SocketTimeout)\<rparr> ''173.233.142.94:25565'')
      [0, 1, 2, 3, 4]
     = [Inl SocketTimeout, Inl SocketTimeout, Inl SocketTimeout, Inl SocketTimeout,
        Inl SocketTimeout] \<and>
   fst (get_server_info
      \<lparr>JavaServer_lookup = Inr, JavaServer_status = (\<lambda>h n. Inl SocketTimeout),
       JavaServer_query = (\<lambda>h n. Inl SocketTimeout)\<rparr> (hd servers)
      \<lparr>status_calls = 0, query_calls = 0, trace = []\<rparr>) = Inr None \<and>
   status_calls (snd (get_server_info
      \<lparr>JavaServer_lookup = Inr, JavaServer_status = (\<lambda>h n. Inl SocketTimeout),
       JavaServer_query = (\<lambda>h n. Inl SocketTimeout)\<rparr> (hd servers)
      \<lparr>status_calls = 0, query_calls = 0, trace = []\<rparr>)) = 5 \<and>
   JavaServer_lookup
      \<lparr>JavaServer_lookup = Inr,
       JavaServer_status = (\<lambda>h n. if n < 2 then Inl (OtherException ''refused'')
          else Inr \<lparr>players_online = 3, players_max = 20, players_sample = Some []\<rparr>),
       JavaServer_query = (\<lambda>h n. Inl SocketTimeout)\<rparr> (ip (hd servers))
     = Inr ''173.233.142.94:25565'' \<and>
   map (JavaServer_status
      \<lparr>JavaServer_lookup = Inr,
       JavaServer_status = (\<lambda>h n. if n < 2 then Inl (OtherException ''refused'')
          else Inr \<lparr>players_online = 3, players_max = 20, players_sample = Some []\<rparr>),
       JavaServer_query = (\<lambda>h n. Inl SocketTimeout)\<rparr> ''173.233.142.94:25565'')
      [0, 1, 2]
     = [Inl (OtherException ''refused''), Inl (OtherException ''refused''),
        Inr \<lparr>players_online = 3, players_max = 20, players_sample = Some []\<rparr>] \<and>
   fst (get_server_info
      \<lparr>JavaServer_lookup = Inr,
       JavaServer_status = (\<lambda>h n. if n < 2 then Inl (OtherException ''refused'')
          else Inr \<lparr>players_online = 3, players_max = 20, players_sample = Some []\<rparr>),
       JavaServer_query = (\<lambda>h n. Inl SocketTimeout)\<rparr> (hd servers)
      \<lparr>status_calls = 0, query_calls = 0, trace = []\<rparr>)
     = Inr (Some \<lparr>players_online = 3, players_max = 20, players_sample = Some []\<rparr>) \<and>
   status_calls (snd (get_server_info
      \<lparr>JavaServer_lookup = Inr,
       JavaServer_status = (\<lambda>h n. if n < 2 then Inl (OtherException ''refused'')
          else Inr \<lparr>players_online = 3, players_max = 20, players_sample = Some []\<rparr>),
       JavaServer_query = (\<lambda>h n. Inl SocketTimeout)\<rparr> (hd servers)
      \<lparr>status_calls = 0, query_calls = 0, trace = []\<rparr>)) = 3"
  using get_server_info_retry
     [where e = "\<lparr>JavaServer_lookup = Inr, JavaServer_status = (\<lambda>h n. Inl SocketTimeout),
       JavaServer_query = (\<lambda>h n. Inl SocketTimeout)\<rparr>"
      and server = "hd servers" and h = "''173.233.142.94:25565''"
      and st = "\<lparr>status_calls = 0, query_calls = 0, trace = []\<rparr>"]
    get_server_info_retry
     [where e = "\<lparr>JavaServer_lookup = Inr,
       JavaServer_status = (\<lambda>h n. if n < 2 then Inl (OtherException ''refused'')
          else Inr \<lparr>players_online = 3, players_max = 20, players_sample = Some []\<rparr>),
       JavaServer_query = (\<lambda>h n. Inl SocketTimeout)\<rparr>"
      and server = "hd servers" and h = "''173.233.142.94:25565''"
      and st = "\<lparr>status_calls = 0, query_calls = 0, trace = []\<rparr>"
      and k = 2 and r = "\<lparr>players_online = 3, players_max = 20, players_sample = Some []\<rparr>"]
  by (simp add: servers_def)

text \<open>
  Claim C10. The address lookup of \<^verbatim>\<open>get_server_info\<close> happens before the retry
  loop and outside any handler: an exception it raises leaves the function as it is,
  with no status request issued, nothing logged and no \<^verbatim>\<open>None\<close> returned.
\<close>
theorem get_server_info_lookup_error:
  "JavaServer_lookup e (ip server) = Inl x \<Longrightarrow> get_server_info e server st = (Inl x, st)"
  by (simp add: get_server_info_def)

theorem get_server_info_lookup_error_witness:
  "JavaServer_lookup
     \<lparr>JavaServer_lookup = (\<lambda>a. Inl (OtherException ''no such host'')),
      JavaServer_status = (\<lambda>h n. Inl SocketTimeout),
      JavaServer_query = (\<lambda>h n. Inl SocketTimeout)\<rparr> (ip (hd servers))
     = Inl (OtherException ''no such host'') \<and>
   get_server_info
     \<lparr>JavaServer_lookup = (\<lambda>a. Inl (OtherException ''no such host'')),
      JavaServer_status = (\<lambda>h n. Inl SocketTimeout),
      JavaServer_query = (\<lambda>h n. Inl SocketTimeout)\<rparr> (hd servers)
     \<lparr>status_calls = 0, query_calls = 0, trace = []\<rparr>
     = (Inl (OtherException ''no such host''),
        \<lparr>status_calls = 0, query_calls = 0, trace = []\<rparr>)"
  using get_server_info_lookup_error
    [where e = "\<lparr>JavaServer_lookup = (\<lambda>a. Inl (OtherException ''no such host'')),
      JavaServer_status = (\<lambda>h n. Inl SocketTimeout),
      JavaServer_query = (\<lambda>h n. Inl SocketTimeout)\<rparr>"
     and server = "hd servers" and x = "OtherException ''no such host''"
     and st = "\<lparr>status_calls = 0, query_calls = 0, trace = []\<rparr>"]
  by simp

section \<open>Properties of the command handler\<close>

lemma send_data_default_miss:
  "server = ''Default'' \<Longrightarrow> get_server_from_channel reg channel_id = Inl x \<Longrightarrow>
   send_data reg e channel_id server hidden st0 =
     (Inr (), emit (FollowupSend
        ''**You must either select a server or be in a recognised channel**'')
        (emit (Defer hidden) st0))"
  using get_server_from_channel_error [of reg channel_id x]
  by (simp add: send_data_def)

lemma send_data_name_miss:
  "server \<noteq> ''Default'' \<Longrightarrow> get_server reg server = Inl x \<Longrightarrow>
   send_data reg e channel_id server hidden st0 = (Inl x, emit (Defer hidden) st0)"
  by (simp add: send_data_def)

lemma send_data_selected:
  assumes "(if server = ''Default'' then get_server_from_channel reg channel_id
            else get_server reg server) = Inr s"
  shows "send_data reg e channel_id server hidden st0 =
     (case get_server_info e s (emit (Defer hidden) st0) of
        (Inl x, st2) \<Rightarrow> (Inl x, st2)
      | (Inr None, st2) \<Rightarrow>
          (Inr (), emit (FollowupSend ''**An unexpected error occurred**'') st2)
      | (Inr (Some status), st2) \<Rightarrow>
          if players_online status = 0 then
            (Inr (), emit (FollowupSend (fst (compose_response s status []))) st2)
          else
            (case (if supports_querying s then
                     (case get_players_query e s st2 of
                        (Inr names, st3) \<Rightarrow> Inr (names, emit (Print names) st3)
                      | (Inl SocketTimeout, st3) \<Rightarrow>
                          Inr ([], emit (LogError (''Using backup for '' @ [CHR 0x27] @ name s
                             @ [CHR 0x27] @ '', despite being supported.'')) st3)
                      | (Inl x, st3) \<Rightarrow> Inl (x, st3))
                   else Inr ([], st2)) of
               Inl (x, st3) \<Rightarrow> (Inl x, st3)
             | Inr (queried, st3) \<Rightarrow>
                 if queried \<noteq> [] then
                   (Inr (), emit (FollowupSend (fst (compose_response s status queried)))
                      (emit (Print queried) st3))
                 else
                   (case players_sample status of
                      None \<Rightarrow>
                        (Inl (TypeError ([CHR 0x27] @ ''NoneType'' @ [CHR 0x27]
                                @ '' object is not iterable'')), st3)
                    | Some sample \<Rightarrow>
                        (Inr (), emit (FollowupSend (fst (compose_response s status
                             (filter (\<lambda>i. i \<noteq> ''Anonymous Player'') sample))))
                           (emit (Print (filter (\<lambda>i. i \<noteq> ''Anonymous Player'') sample))
                              st3)))))"
  using assms
  by (cases "server = ''Default''")
     (auto simp: send_data_def Let_def split: sum.splits option.splits prod.splits exn.splits)

text \<open>
  The names the handler composes from, once a server that supports querying has been
  selected and a status with a non-zero online count fetched. With a sample in the
  status, a query that times out or returns the empty list leads to the sampled names
  without the entries equal to \<^verbatim>\<open>Anonymous Player\<close>; a non-empty query result is used
  as it is. Without a sample in the status, the fallback raises \<^verbatim>\<open>TypeError\<close>, on
  servers that support querying and on servers that do not.
\<close>

lemma send_data_names_from_sample:
  "(if server = ''Default'' then get_server_from_channel reg channel_id
    else get_server reg server) = Inr s \<Longrightarrow>
   get_server_info e s (emit (Defer hidden) st) = (Inr (Some status), st_a) \<Longrightarrow>
   players_online status \<noteq> 0 \<Longrightarrow>
   supports_querying s \<Longrightarrow>
   players_sample status = Some sample \<Longrightarrow>
   (get_players_query e s st_a = (Inl SocketTimeout, st_b) \<longrightarrow>
      send_data reg e channel_id server hidden st =
        (Inr (),
         emit (FollowupSend (fst (compose_response s status
                 (filter (\<lambda>i. i \<noteq> ''Anonymous Player'') sample))))
           (emit (Print (filter (\<lambda>i. i \<noteq> ''Anonymous Player'') sample))
              (emit (LogError (''Using backup for '' @ [CHR 0x27] @ name s @ [CHR 0x27]
                       @ '', despite being supported.'')) st_b)))) \<and>
   (get_players_query e s st_a = (Inr [], st_b) \<longrightarrow>
      send_data reg e channel_id server hidden st =
        (Inr (),
         emit (FollowupSend (fst (compose_response s status
                 (filter (\<lambda>i. i \<noteq> ''Anonymous Player'') sample))))
           (emit (Print (filter (\<lambda>i. i \<noteq> ''Anonymous Player'') sample))
              (emit (Print []) st_b))))"
  by (simp add: send_data_selected Let_def)

lemma send_data_names_from_query:
  "(if server = ''Default'' then get_server_from_channel reg channel_id
    else get_server reg server) = Inr s \<Longrightarrow>
   get_server_info e s (emit (Defer hidden) st) = (Inr (Some status), st_a) \<Longrightarrow>
   players_online status \<noteq> 0 \<Longrightarrow>
   supports_querying s \<Longrightarrow>
   names \<noteq> [] \<Longrightarrow>
   get_players_query e s st_a = (Inr names, st_b) \<Longrightarrow>
   send_data reg e channel_id server hidden st =
     (Inr (),
      emit (FollowupSend (fst (compose_response s status names)))
        (emit (Print names) (emit (Print names) st_b)))"
  by (simp add: send_data_selected Let_def)

lemma send_data_no_sample:
  "(if server = ''Default'' then get_server_from_channel reg channel_id
    else get_server reg server) = Inr s \<Longrightarrow>
   get_server_info e s (emit (Defer hidden) st) = (Inr (Some status), st_a) \<Longrightarrow>
   players_online status \<noteq> 0 \<Longrightarrow>
   players_sample status = None \<Longrightarrow>
   (\<not> supports_querying s \<longrightarrow>
      send_data reg e channel_id server hidden st =
        (Inl (TypeError ([CHR 0x27] @ ''NoneType'' @ [CHR 0x27] @ '' object is not iterable'')),
         st_a)) \<and>
   (supports_querying s \<and> get_players_query e s st_a = (Inl SocketTimeout, st_b) \<longrightarrow>
      send_data reg e channel_id server hidden st =
        (Inl (TypeError ([CHR 0x27] @ ''NoneType'' @ [CHR 0x27] @ '' object is not iterable'')),
         emit (LogError (''Using backup for '' @ [CHR 0x27] @ name s @ [CHR 0x27]
                 @ '', despite being supported.'')) st_b)) \<and>
   (supports_querying s \<and> get_players_query e s st_a = (Inr [], st_b) \<longrightarrow>
      send_data reg e channel_id server hidden st =
        (Inl (TypeError ([CHR 0x27] @ ''NoneType'' @ [CHR 0x27] @ '' object is not iterable'')),
         emit (Print []) st_b))"
  by (simp add: send_data_selected Let_def)


text \<open>
  Claim C3, as stated, fails: failures do leave \<^verbatim>\<open>send_data\<close>. On the registry of
  the program, a status with one player online and no sample ends in \<^verbatim>\<open>TypeError\<close>
  after the deferral, with no reply sent; on a registry whose server supports querying,
  a query error that is not a timeout leaves the handler in the same way.
\<close>
theorem send_data_failures_counterexample:
  "send_data servers
     \<lparr>JavaServer_lookup = Inr, JavaServer_status = (\<lambda>h n. Inr \<lparr>players_online = 1, players_max = 20, players_sample = None\<rparr>), JavaServer_query = (\<lambda>h n. Inl SocketTimeout)\<rparr>
     930585547842404372 ''Default'' True \<lparr>status_calls = 0, query_calls = 0, trace = []\<rparr> =
     (Inl (TypeError ([CHR 0x27] @ ''NoneType'' @ [CHR 0x27] @ '' object is not iterable'')), \<lparr>status_calls = 1, query_calls = 0, trace = [Defer True]\<rparr>) \<and>
   send_data [\<lparr>name = ''Test'', ip = ''127.0.0.1:25565'', channels = [1], secret = False, supports_querying = True\<rparr>]
     \<lparr>JavaServer_lookup = Inr, JavaServer_status = (\<lambda>h n. Inr \<lparr>players_online = 3, players_max = 20, players_sample = Some [''Alice'', ''Anonymous Player'', ''Bob'']\<rparr>), JavaServer_query = (\<lambda>h n. Inl (OtherException ''connection refused''))\<rparr>
     1 ''Default'' True \<lparr>status_calls = 0, query_calls = 0, trace = []\<rparr> =
     (Inl (OtherException ''connection refused''), \<lparr>status_calls = 1, query_calls = 1, trace = [Defer True]\<rparr>)"
  by (simp add: servers_def send_data_def get_server_info_def get_players_query_def status_loop.simps MAX_RETRIES_def emit_def compose_response_def str_int_def digits.simps Let_def)

text \<open>
  Claim C3, amended. \<^verbatim>\<open>send_data\<close> turns three failures into a textual reply: a
  miss of the channel resolver under the \<^verbatim>\<open>Default\<close> selection (the fixed
  "must select a server" message), the exhaustion of the status retries (the fixed
  "unexpected error" message) and, for a status that carries a sample, a timeout of
  the player query (the status summary composed from the sampled names). A miss of the
  by-name resolver, an exception of the address lookup and a query exception other than
  a timeout are not caught: they propagate out of the handler and no reply is sent.
\<close>
theorem send_data_failures:
  "(server = ''Default'' \<and> get_server_from_channel reg channel_id = Inl x \<longrightarrow>
      send_data reg e channel_id server hidden st =
        (Inr (), emit (FollowupSend
           ''**You must either select a server or be in a recognised channel**'')
           (emit (Defer hidden) st))) \<and>
   (server \<noteq> ''Default'' \<and> get_server reg server = Inl x \<longrightarrow>
      send_data reg e channel_id server hidden st = (Inl x, emit (Defer hidden) st)) \<and>
   ((if server = ''Default'' then get_server_from_channel reg channel_id
     else get_server reg server) = Inr s \<longrightarrow>
      (get_server_info e s (emit (Defer hidden) st) = (Inr None, st_a) \<longrightarrow>
         send_data reg e channel_id server hidden st =
           (Inr (), emit (FollowupSend ''**An unexpected error occurred**'') st_a)) \<and>
      (get_server_info e s (emit (Defer hidden) st) = (Inl x, st_a) \<longrightarrow>
         send_data reg e channel_id server hidden st = (Inl x, st_a)) \<and>
      (get_server_info e s (emit (Defer hidden) st) = (Inr (Some status), st_a) \<and>
       players_online status \<noteq> 0 \<and> supports_querying s \<longrightarrow>
         (get_players_query e s st_a = (Inl SocketTimeout, st_b) \<and>
          players_sample status = Some sample \<longrightarrow>
            fst (send_data reg e channel_id server hidden st) = Inr () \<and>
            last (trace (snd (send_data reg e channel_id server hidden st))) =
              FollowupSend (fst (compose_response s status
                (filter (\<lambda>i. i \<noteq> ''Anonymous Player'') sample)))) \<and>
         (get_players_query e s st_a = (Inl x, st_b) \<and> x \<noteq> SocketTimeout \<longrightarrow>
            send_data reg e channel_id server hidden st = (Inl x, st_b))))"
proof (intro conjI impI)
  assume "server = ''Default'' \<and> get_server_from_channel reg channel_id = Inl x"
  then show "send_data reg e channel_id server hidden st =
        (Inr (), emit (FollowupSend
           ''**You must either select a server or be in a recognised channel**'')
           (emit (Defer hidden) st))"
    by (simp add: send_data_default_miss)
next
  assume "server \<noteq> ''Default'' \<and> get_server reg server = Inl x"
  then show "send_data reg e channel_id server hidden st = (Inl x, emit (Defer hidden) st)"
    by (simp add: send_data_name_miss)
next
  assume sel: "(if server = ''Default'' then get_server_from_channel reg channel_id
     else get_server reg server) = Inr s"
  {
    assume "get_server_info e s (emit (Defer hidden) st) = (Inr None, st_a)"
    then show "send_data reg e channel_id server hidden st =
           (Inr (), emit (FollowupSend ''**An unexpected error occurred**'') st_a)"
      by (simp add: send_data_selected [OF sel] Let_def)
  }
  {
    assume "get_server_info e s (emit (Defer hidden) st) = (Inl x, st_a)"
    then show "send_data reg e channel_id server hidden st = (Inl x, st_a)"
      by (simp add: send_data_selected [OF sel] Let_def)
  }
  assume fetched: "get_server_info e s (emit (Defer hidden) st) = (Inr (Some status), st_a) \<and>
       players_online status \<noteq> 0 \<and> supports_querying s"
  {
    assume q: "get_players_query e s st_a = (Inl SocketTimeout, st_b) \<and>
          players_sample status = Some sample"
    from fetched q show "fst (send_data reg e channel_id server hidden st) = Inr ()"
      by (simp add: send_data_selected [OF sel] Let_def)
    from fetched q show "last (trace (snd (send_data reg e channel_id server hidden st))) =
              FollowupSend (fst (compose_response s status
                (filter (\<lambda>i. i \<noteq> ''Anonymous Player'') sample)))"
      by (simp add: send_data_selected [OF sel] emit_def Let_def)
  }
  {
    assume "get_players_query e s st_a = (Inl x, st_b) \<and> x \<noteq> SocketTimeout"
    with fetched show "send_data reg e channel_id server hidden st = (Inl x, st_b)"
      by (cases x) (simp_all add: send_data_selected [OF sel] Let_def)
  }
qed

theorem send_data_failures_witness:
  "get_server_from_channel servers 42 = Inl (ValueError (''Channel ID '' @ [CHR 0x27] @ ''42'' @ [CHR 0x27] @ '' not found.'')) \<and>
   send_data servers \<lparr>JavaServer_lookup = Inr, JavaServer_status = (\<lambda>h n. Inr \<lparr>players_online = 3, players_max = 20, players_sample = Some [''Alice'', ''Anonymous Player'', ''Bob'']\<rparr>), JavaServer_query = (\<lambda>h n. Inl SocketTimeout)\<rparr> 42 ''Default'' True \<lparr>status_calls = 0, query_calls = 0, trace = []\<rparr> =
     (Inr (), \<lparr>status_calls = 0, query_calls = 0, trace = [Defer True, FollowupSend ''**You must either select a server or be in a recognised channel**'']\<rparr>) \<and>
   get_server servers ''Nowhere'' = Inl (ValueError (''Server '' @ [CHR 0x27] @ ''Nowhere'' @ [CHR 0x27] @ '' not found.'')) \<and>
   send_data servers \<lparr>JavaServer_lookup = Inr, JavaServer_status = (\<lambda>h n. Inr \<lparr>players_online = 3, players_max = 20, players_sample = Some [''Alice'', ''Anonymous Player'', ''Bob'']\<rparr>), JavaServer_query = (\<lambda>h n. Inl SocketTimeout)\<rparr> 42 ''Nowhere'' True \<lparr>status_calls = 0, query_calls = 0, trace = []\<rparr> =
     (Inl (ValueError (''Server '' @ [CHR 0x27] @ ''Nowhere'' @ [CHR 0x27] @ '' not found.'')), \<lparr>status_calls = 0, query_calls = 0, trace = [Defer True]\<rparr>) \<and>
   (if ''Default'' = ''Default'' then get_server_from_channel servers 930585547842404372 else get_server servers ''Default'') = Inr (hd servers) \<and>
   get_server_info \<lparr>JavaServer_lookup = Inr, JavaServer_status = (\<lambda>h n. Inl SocketTimeout), JavaServer_query = (\<lambda>h n. Inl SocketTimeout)\<rparr> (hd servers) (emit (Defer True) \<lparr>status_calls = 0, query_calls = 0, trace = []\<rparr>) = (Inr None, \<lparr>status_calls = 5, query_calls = 0, trace = [Defer True, LogWarning ''Status TimeoutError 0'', LogWarning ''Status TimeoutError 1'', LogWarning ''Status TimeoutError 2'', LogWarning ''Status TimeoutError 3'', LogWarning ''Status TimeoutError 4'']\<rparr>) \<and>
   send_data servers \<lparr>JavaServer_lookup = Inr, JavaServer_status = (\<lambda>h n. Inl SocketTimeout), JavaServer_query = (\<lambda>h n. Inl SocketTimeout)\<rparr> 930585547842404372 ''Default'' True \<lparr>status_calls = 0, query_calls = 0, trace = []\<rparr> =
     (Inr (), \<lparr>status_calls = 5, query_calls = 0, trace = [Defer True, LogWarning ''Status TimeoutError 0'', LogWarning ''Status TimeoutError 1'', LogWarning ''Status TimeoutError 2'', LogWarning ''Status TimeoutError 3'', LogWarning ''Status TimeoutError 4'', FollowupSend ''**An unexpected error occurred**'']\<rparr>) \<and>
   get_server_info \<lparr>JavaServer_lookup = (\<lambda>a. Inl (OtherException ''no such host'')), JavaServer_status = (\<lambda>h n. Inr \<lparr>players_online = 3, players_max = 20, players_sample = Some [''Alice'', ''Anonymous Player'', ''Bob'']\<rparr>), JavaServer_query = (\<lambda>h n. Inl SocketTimeout)\<rparr> (hd servers) (emit (Defer True) \<lparr>status_calls = 0, query_calls = 0, trace = []\<rparr>) = (Inl (OtherException ''no such host''), \<lparr>status_calls = 0, query_calls = 0, trace = [Defer True]\<rparr>) \<and>
   send_data servers \<lparr>JavaServer_lookup = (\<lambda>a. Inl (OtherException ''no such host'')), JavaServer_status = (\<lambda>h n. Inr \<lparr>players_online = 3, players_max = 20, players_sample = Some [''Alice'', ''Anonymous Player'', ''Bob'']\<rparr>), JavaServer_query = (\<lambda>h n. Inl SocketTimeout)\<rparr> 930585547842404372 ''Default'' True \<lparr>status_calls = 0, query_calls = 0, trace = []\<rparr> =
     (Inl (OtherException ''no such host''), \<lparr>status_calls = 0, query_calls = 0, trace = [Defer True]\<rparr>) \<and>
   (if ''Test'' = ''Default'' then get_server_from_channel [\<lparr>name = ''Test'', ip = ''127.0.0.1:25565'', channels = [1], secret = False, supports_querying = True\<rparr>] 1 else get_server [\<lparr>name = ''Test'', ip = ''127.0.0.1:25565'', channels = [1], secret = False, supports_querying = True\<rparr>] ''Test'') = Inr (\<lparr>name = ''Test'', ip = ''127.0.0.1:25565'', channels = [1], secret = False, supports_querying = True\<rparr>) \<and>
   get_server_info \<lparr>JavaServer_lookup = Inr, JavaServer_status = (\<lambda>h n. Inr \<lparr>players_online = 3, players_max = 20, players_sample = Some [''Alice'', ''Anonymous Player'', ''Bob'']\<rparr>), JavaServer_query = (\<lambda>h n. Inl SocketTimeout)\<rparr> \<lparr>name = ''Test'', ip = ''127.0.0.1:25565'', channels = [1], secret = False, supports_querying = True\<rparr> (emit (Defer True) \<lparr>status_calls = 0, query_calls = 0, trace = []\<rparr>) = (Inr (Some \<lparr>players_online = 3, players_max = 20, players_sample = Some [''Alice'', ''Anonymous Player'', ''Bob'']\<rparr>), \<lparr>status_calls = 1, query_calls = 0, trace = [Defer True]\<rparr>) \<and>
   players_online \<lparr>players_online = 3, players_max = 20, players_sample = Some [''Alice'', ''Anonymous Player'', ''Bob'']\<rparr> \<noteq> 0 \<and>
   supports_querying \<lparr>name = ''Test'', ip = ''127.0.0.1:25565'', channels = [1], secret = False, supports_querying = True\<rparr> \<and>
   players_sample \<lparr>players_online = 3, players_max = 20, players_sample = Some [''Alice'', ''Anonymous Player'', ''Bob'']\<rparr> = Some [''Alice'', ''Anonymous Player'', ''Bob''] \<and>
   get_players_query \<lparr>JavaServer_lookup = Inr, JavaServer_status = (\<lambda>h n. Inr \<lparr>players_online = 3, players_max = 20, players_sample = Some [''Alice'', ''Anonymous Player'', ''Bob'']\<rparr>), JavaServer_query = (\<lambda>h n. Inl SocketTimeout)\<rparr> \<lparr>name = ''Test'', ip = ''127.0.0.1:25565'', channels = [1], secret = False, supports_querying = True\<rparr> \<lparr>status_calls = 1, query_calls = 0, trace = [Defer True]\<rparr> = (Inl SocketTimeout, \<lparr>status_calls = 1, query_calls = 1, trace = [Defer True]\<rparr>) \<and>
   fst (send_data [\<lparr>name = ''Test'', ip = ''127.0.0.1:25565'', channels = [1], secret = False, supports_querying = True\<rparr>] \<lparr>JavaServer_lookup = Inr, JavaServer_status = (\<lambda>h n. Inr \<lparr>players_online = 3, players_max = 20, players_sample = Some [''Alice'', ''Anonymous Player'', ''Bob'']\<rparr>), JavaServer_query = (\<lambda>h n. Inl SocketTimeout)\<rparr> 1 ''Test'' True \<lparr>status_calls = 0, query_calls = 0, trace = []\<rparr>) = Inr () \<and>
   last (trace (snd (send_data [\<lparr>name = ''Test'', ip = ''127.0.0.1:25565'', channels = [1], secret = False, supports_querying = True\<rparr>] \<lparr>JavaServer_lookup = Inr, JavaServer_status = (\<lambda>h n. Inr \<lparr>players_online = 3, players_max = 20, players_sample = Some [''Alice'', ''Anonymous Player'', ''Bob'']\<rparr>), JavaServer_query = (\<lambda>h n. Inl SocketTimeout)\<rparr> 1 ''Test'' True \<lparr>status_calls = 0, query_calls = 0, trace = []\<rparr>))) =
     FollowupSend (''**Spooncraft Test Server**'' @ [CHR 0x0A] @ ''**Online players (3/20):**'' @ [CHR 0x0A] @ ''```Alice, Bob, ...```'') \<and>
   get_server_info \<lparr>JavaServer_lookup = Inr, JavaServer_status = (\<lambda>h n. Inr \<lparr>players_online = 3, players_max = 20, players_sample = Some [''Alice'', ''Anonymous Player'', ''Bob'']\<rparr>), JavaServer_query = (\<lambda>h n. Inl (OtherException ''connection refused''))\<rparr> \<lparr>name = ''Test'', ip = ''127.0.0.1:25565'', channels = [1], secret = False, supports_querying = True\<rparr> (emit (Defer True) \<lparr>status_calls = 0, query_calls = 0, trace = []\<rparr>) = (Inr (Some \<lparr>players_online = 3, players_max = 20, players_sample = Some [''Alice'', ''Anonymous Player'', ''Bob'']\<rparr>), \<lparr>status_calls = 1, query_calls = 0, trace = [Defer True]\<rparr>) \<and>
   get_players_query \<lparr>JavaServer_lookup = Inr, JavaServer_status = (\<lambda>h n. Inr \<lparr>players_online = 3, players_max = 20, players_sample = Some [''Alice'', ''Anonymous Player'', ''Bob'']\<rparr>), JavaServer_query = (\<lambda>h n. Inl (OtherException ''connection refused''))\<rparr> \<lparr>name = ''Test'', ip = ''127.0.0.1:25565'', channels = [1], secret = False, supports_querying = True\<rparr> \<lparr>status_calls = 1, query_calls = 0, trace = [Defer True]\<rparr> = (Inl (OtherException ''connection refused''), \<lparr>status_calls = 1, query_calls = 1, trace = [Defer True]\<rparr>) \<and>
   OtherException ''connection refused'' \<noteq> SocketTimeout \<and>
   send_data [\<lparr>name = ''Test'', ip = ''127.0.0.1:25565'', channels = [1], secret = False, supports_querying = True\<rparr>] \<lparr>JavaServer_lookup = Inr, JavaServer_status = (\<lambda>h n. Inr \<lparr>players_online = 3, players_max = 20, players_sample = Some [''Alice'', ''Anonymous Player'', ''Bob'']\<rparr>), JavaServer_query = (\<lambda>h n. Inl (OtherException ''connection refused''))\<rparr> 1 ''Test'' True \<lparr>status_calls = 0, query_calls = 0, trace = []\<rparr> =
     (Inl (OtherException ''connection refused''), \<lparr>status_calls = 1, query_calls = 1, trace = [Defer True]\<rparr>)"
  using send_data_failures
    [where reg = "servers"
       and server = "''Default''"
       and channel_id = 42
       and e = "\<lparr>JavaServer_lookup = Inr, JavaServer_status = (\<lambda>h n. Inr \<lparr>players_online = 3, players_max = 20, players_sample = Some [''Alice'', ''Anonymous Player'', ''Bob'']\<rparr>), JavaServer_query = (\<lambda>h n. Inl SocketTimeout)\<rparr>"
       and hidden = True
       and st = "\<lparr>status_calls = 0, query_calls = 0, trace = []\<rparr>"
       and x = "ValueError (''Channel ID '' @ [CHR 0x27] @ ''42'' @ [CHR 0x27] @ '' not found.'')"]
    send_data_failures
    [where reg = "servers"
       and server = "''Nowhere''"
       and channel_id = 42
       and e = "\<lparr>JavaServer_lookup = Inr, JavaServer_status = (\<lambda>h n. Inr \<lparr>players_online = 3, players_max = 20, players_sample = Some [''Alice'', ''Anonymous Player'', ''Bob'']\<rparr>), JavaServer_query = (\<lambda>h n. Inl SocketTimeout)\<rparr>"
       and hidden = True
       and st = "\<lparr>status_calls = 0, query_calls = 0, trace = []\<rparr>"
       and x = "ValueError (''Server '' @ [CHR 0x27] @ ''Nowhere'' @ [CHR 0x27] @ '' not found.'')"]
    send_data_failures
    [where reg = "servers"
       and server = "''Default''"
       and channel_id = 930585547842404372
       and e = "\<lparr>JavaServer_lookup = Inr, JavaServer_status = (\<lambda>h n. Inl SocketTimeout), JavaServer_query = (\<lambda>h n. Inl SocketTimeout)\<rparr>"
       and hidden = True
       and st = "\<lparr>status_calls = 0, query_calls = 0, trace = []\<rparr>"
       and x = "SocketTimeout"
       and s = "hd servers"
       and st_a = "\<lparr>status_calls = 5, query_calls = 0, trace = [Defer True, LogWarning ''Status TimeoutError 0'', LogWarning ''Status TimeoutError 1'', LogWarning ''Status TimeoutError 2'', LogWarning ''Status TimeoutError 3'', LogWarning ''Status TimeoutError 4'']\<rparr>"]
    send_data_failures
    [where reg = "servers"
       and server = "''Default''"
       and channel_id = 930585547842404372
       and e = "\<lparr>JavaServer_lookup = (\<lambda>a. Inl (OtherException ''no such host'')), JavaServer_status = (\<lambda>h n. Inr \<lparr>players_online = 3, players_max = 20, players_sample = Some [''Alice'', ''Anonymous Player'', ''Bob'']\<rparr>), JavaServer_query = (\<lambda>h n. Inl SocketTimeout)\<rparr>"
       and hidden = True
       and st = "\<lparr>status_calls = 0, query_calls = 0, trace = []\<rparr>"
       and x = "OtherException ''no such host''"
       and s = "hd servers"
       and st_a = "\<lparr>status_calls = 0, query_calls = 0, trace = [Defer True]\<rparr>"]
    send_data_failures
    [where reg = "[\<lparr>name = ''Test'', ip = ''127.0.0.1:25565'', channels = [1], secret = False, supports_querying = True\<rparr>]"
       and server = "''Test''"
       and channel_id = 1
       and e = "\<lparr>JavaServer_lookup = Inr, JavaServer_status = (\<lambda>h n. Inr \<lparr>players_online = 3, players_max = 20, players_sample = Some [''Alice'', ''Anonymous Player'', ''Bob'']\<rparr>), JavaServer_query = (\<lambda>h n. Inl SocketTimeout)\<rparr>"
       and hidden = True
       and st = "\<lparr>status_calls = 0, query_calls = 0, trace = []\<rparr>"
       and x = "SocketTimeout"
       and s = "\<lparr>name = ''Test'', ip = ''127.0.0.1:25565'', channels = [1], secret = False, supports_querying = True\<rparr>"
       and status = "\<lparr>players_online = 3, players_max = 20, players_sample = Some [''Alice'', ''Anonymous Player'', ''Bob'']\<rparr>"
       and st_a = "\<lparr>status_calls = 1, query_calls = 0, trace = [Defer True]\<rparr>"
       and st_b = "\<lparr>status_calls = 1, query_calls = 1, trace = [Defer True]\<rparr>"
       and sample = "[''Alice'', ''Anonymous Player'', ''Bob'']"]
    send_data_failures
    [where reg = "[\<lparr>name = ''Test'', ip = ''127.0.0.1:25565'', channels = [1], secret = False, supports_querying = True\<rparr>]"
       and server = "''Test''"
       and channel_id = 1
       and e = "\<lparr>JavaServer_lookup = Inr, JavaServer_status = (\<lambda>h n. Inr \<lparr>players_online = 3, players_max = 20, players_sample = Some [''Alice'', ''Anonymous Player'', ''Bob'']\<rparr>), JavaServer_query = (\<lambda>h n. Inl (OtherException ''connection refused''))\<rparr>"
       and hidden = True
       and st = "\<lparr>status_calls = 0, query_calls = 0, trace = []\<rparr>"
       and x = "OtherException ''connection refused''"
       and s = "\<lparr>name = ''Test'', ip = ''127.0.0.1:25565'', channels = [1], secret = False, supports_querying = True\<rparr>"
       and status = "\<lparr>players_online = 3, players_max = 20, players_sample = Some [''Alice'', ''Anonymous Player'', ''Bob'']\<rparr>"
       and st_a = "\<lparr>status_calls = 1, query_calls = 0, trace = [Defer True]\<rparr>"
       and st_b = "\<lparr>status_calls = 1, query_calls = 1, trace = [Defer True]\<rparr>"]
  by (simp add: servers_def send_data_def get_server_info_def get_players_query_def status_loop.simps MAX_RETRIES_def emit_def compose_response_def str_int_def digits.simps Let_def)

end
